theory Spec2Isabelle
  imports Main
begin

section \<open>The block hierarchy of models/res.py\<close>

text \<open>
  The wide residual network of \<^verbatim>\<open>src/models/res.py\<close> is a tree of layers. The leaves are
  layers of the tensor framework (batch normalisation, an activation, a convolution, an
  average pooling); the inner nodes are instances of \<^verbatim>\<open>BasicLayer\<close>, which stores a list of
  sub-layers together with a stride, a filter count and a width multiplier.
  \<^verbatim>\<open>ConvolutionBlock\<close>, \<^verbatim>\<open>BottleneckBlock\<close> and \<^verbatim>\<open>Group\<close> are subclasses whose constructors
  only choose the arguments of \<^verbatim>\<open>BasicLayer.__init__\<close>; their \<^verbatim>\<open>call\<close> and
  \<^verbatim>\<open>compute_output_shape\<close> forward to the inherited methods.

  Python integers are unbounded, so every number is an \<^typ>\<open>int\<close>; Python's \<^verbatim>\<open>//\<close> rounds
  towards minus infinity, as \<^term>\<open>(div)\<close> on \<^typ>\<open>int\<close> does, and raises on a zero divisor,
  which the model returns as an error value.
\<close>

subsection \<open>Data\<close>

datatype error = ZeroDivisionError | IndexError | ValueError

text \<open>A tensor shape \<^verbatim>\<open>(batch, height, width, channels)\<close> with known dimensions.\<close>

type_synonym shape = "int \<times> int \<times> int \<times> int"

text \<open>
  Modelled from the spec: the shape constructor \<^verbatim>\<open>TensorShape\<close> is library code that is
  not under \<^verbatim>\<open>src/\<close>. The specification takes a shape to be a tuple of dimensions that are
  positive; the constructor returns the tuple it is given and refuses a negative dimension
  with a value error.
\<close>

definition TensorShape :: "shape \<Rightarrow> error + shape" where
  "TensorShape dims =
     (case dims of (b, h, w, c) \<Rightarrow>
        if b < 0 \<or> h < 0 \<or> w < 0 \<or> c < 0 then Inl ValueError else Inr (b, h, w, c))"

text \<open>
  The activation argument is a layer class that every convolution block instantiates for
  itself; the module imports \<^verbatim>\<open>ReLU\<close> and uses it as the default.
\<close>

datatype activation = ReLU | OtherActivation string

datatype padding = Same | Valid

datatype keras_layer =
    BatchNormalization
  | Activation activation
  | Conv2D (conv_input_shape: "(int \<times> int \<times> int) option") (conv_filters: int)
      (conv_kernel_size: "int \<times> int") (conv_strides: int) (conv_padding: padding)
  | AvgPool2D (avg_pool_size: int)

datatype layer =
    Keras keras_layer
  | BasicLayer (sub_layers: "layer list") (stride: int) (filters: int) (k: int)

text \<open>The network object: the ordered list \<^verbatim>\<open>self.groups\<close> and \<^verbatim>\<open>self.pool_size\<close>.\<close>

record wide_residual_network =
  groups :: "layer list"
  pool_size :: int

subsection \<open>Constructors: the objects built\<close>

text \<open>
  The constructors of the module contain no check and no \<^verbatim>\<open>raise\<close> of their own; the only
  way a construction can fail is inside the constructor of a framework layer. This
  subsection gives the object each constructor builds when no framework constructor
  refuses its arguments; the next one gives the constructors with those refusals.
\<close>

text \<open>
  \<^verbatim>\<open>ConvolutionBlock(filters, kernel_size, stride=1, activation=ReLU, k=1)\<close>: normalise,
  activate, convolve with \<^verbatim>\<open>filters * k\<close> filters and same padding.
\<close>

definition ConvolutionBlock :: "int \<Rightarrow> int \<times> int \<Rightarrow> int \<Rightarrow> activation \<Rightarrow> int \<Rightarrow> layer" where
  "ConvolutionBlock filters' kernel_size stride' activation' k' =
     BasicLayer
       [Keras BatchNormalization,
        Keras (Activation activation'),
        Keras (Conv2D None (filters' * k') kernel_size stride' Same)]
       stride' filters' k'"

text \<open>
  \<^verbatim>\<open>BottleneckBlock(filters, stride=1, activation=ReLU, k=1)\<close>. The three children are built
  with \<^verbatim>\<open>filters=filters * k\<close> and without a \<^verbatim>\<open>k\<close> argument, so their own multiplier is the
  default 1; the second and third are built without a \<^verbatim>\<open>stride\<close> argument, so their stride
  is the default 1.
\<close>

definition BottleneckBlock :: "int \<Rightarrow> int \<Rightarrow> activation \<Rightarrow> int \<Rightarrow> layer" where
  "BottleneckBlock filters' stride' activation' k' =
     BasicLayer
       [ConvolutionBlock (filters' * k') (1, 1) stride' activation' 1,
        ConvolutionBlock (filters' * k') (3, 3) 1 activation' 1,
        ConvolutionBlock (filters' * k') (1, 1) 1 activation' 1]
       stride' filters' k'"

text \<open>
  \<^verbatim>\<open>Group(n, filters, stride=1, activation=ReLU, k=1)\<close>. The comprehension over
  \<^verbatim>\<open>range(n - 1)\<close> yields \<open>n - 1\<close> blocks when \<open>n\<close> is at least 1 and none otherwise.
\<close>

definition Group :: "int \<Rightarrow> int \<Rightarrow> int \<Rightarrow> activation \<Rightarrow> int \<Rightarrow> layer" where
  "Group n filters' stride' activation' k' =
     BasicLayer
       ([BottleneckBlock filters' stride' activation' k']
        @ replicate (nat (n - 1)) (BottleneckBlock filters' 1 activation' k'))
       stride' filters' k'"

definition FILTER_SIZES :: "int list" where
  "FILTER_SIZES = [16, 16, 32, 64]"

definition STRIDES :: "int list" where
  "STRIDES = [4, 1, 2, 2]"

text \<open>
  \<^verbatim>\<open>WideResidualNetwork(input_shape, group_size, pool_size=8, activation=ReLU, k=1)\<close>: the
  stem convolution, one group for every index from 1 up to the length of the filter table,
  and the pooling layer. The object stores the list and the pool size, and nothing else.
\<close>

definition WideResidualNetwork ::
  "int \<times> int \<times> int \<Rightarrow> int \<Rightarrow> int \<Rightarrow> activation \<Rightarrow> int \<Rightarrow> wide_residual_network" where
  "WideResidualNetwork input_shape group_size pool_size' activation' k' =
     \<lparr>groups =
        [Keras (Conv2D (Some input_shape) (FILTER_SIZES ! 0) (3, 3) (STRIDES ! 0) Same)]
        @ map (\<lambda>i. Group group_size (FILTER_SIZES ! i) (STRIDES ! i) activation' k')
            [1 ..< length FILTER_SIZES]
        @ [Keras (AvgPool2D pool_size')],
      pool_size = pool_size'\<rparr>"

subsection \<open>Constructors: failing constructions\<close>

text \<open>
  Modelled from the spec: the constructors of \<^verbatim>\<open>Conv2D\<close> and \<^verbatim>\<open>AvgPool2D\<close> are library code
  that is not under \<^verbatim>\<open>src/\<close>. Following the specification's configuration errors, which
  surface when the hierarchy is built, the convolution refuses a filter count or a stride
  that is not positive, and the pooling layer a pool size that is not positive, each with a
  value error raised inside the constructor.
\<close>

definition Conv2D_init ::
  "(int \<times> int \<times> int) option \<Rightarrow> int \<Rightarrow> int \<times> int \<Rightarrow> int \<Rightarrow> padding \<Rightarrow> error + keras_layer" where
  "Conv2D_init input_shape filters' kernel_size strides padding' =
     (if filters' \<le> 0 \<or> strides \<le> 0 then Inl ValueError
      else Inr (Conv2D input_shape filters' kernel_size strides padding'))"

definition AvgPool2D_init :: "int \<Rightarrow> error + keras_layer" where
  "AvgPool2D_init pool_size' =
     (if pool_size' \<le> 0 then Inl ValueError else Inr (AvgPool2D pool_size'))"

text \<open>
  A list display or comprehension evaluates its elements from left to right; the first
  element that raises ends the evaluation.
\<close>

fun collect :: "(error + 'a) list \<Rightarrow> error + 'a list" where
  "collect [] = Inr []"
| "collect (r # rs) =
     (case r of
        Inl e \<Rightarrow> Inl e
      | Inr x \<Rightarrow> (case collect rs of Inl e \<Rightarrow> Inl e | Inr xs \<Rightarrow> Inr (x # xs)))"

text \<open>
  The four constructors of the module as they run: each builds its sub-layers first, in
  the order of the list, and then stores them with the stride, the filter count and the
  multiplier. None of them inspects its own arguments.
\<close>

definition ConvolutionBlock_init ::
  "int \<Rightarrow> int \<times> int \<Rightarrow> int \<Rightarrow> activation \<Rightarrow> int \<Rightarrow> error + layer" where
  "ConvolutionBlock_init filters' kernel_size stride' activation' k' =
     (case collect
             [Inr BatchNormalization,
              Inr (Activation activation'),
              Conv2D_init None (filters' * k') kernel_size stride' Same] of
        Inl e \<Rightarrow> Inl e
      | Inr subs \<Rightarrow> Inr (BasicLayer (map Keras subs) stride' filters' k'))"

definition BottleneckBlock_init :: "int \<Rightarrow> int \<Rightarrow> activation \<Rightarrow> int \<Rightarrow> error + layer" where
  "BottleneckBlock_init filters' stride' activation' k' =
     (case collect
             [ConvolutionBlock_init (filters' * k') (1, 1) stride' activation' 1,
              ConvolutionBlock_init (filters' * k') (3, 3) 1 activation' 1,
              ConvolutionBlock_init (filters' * k') (1, 1) 1 activation' 1] of
        Inl e \<Rightarrow> Inl e
      | Inr subs \<Rightarrow> Inr (BasicLayer subs stride' filters' k'))"

definition Group_init :: "int \<Rightarrow> int \<Rightarrow> int \<Rightarrow> activation \<Rightarrow> int \<Rightarrow> error + layer" where
  "Group_init n filters' stride' activation' k' =
     (case collect
             ([BottleneckBlock_init filters' stride' activation' k']
              @ replicate (nat (n - 1)) (BottleneckBlock_init filters' 1 activation' k')) of
        Inl e \<Rightarrow> Inl e
      | Inr subs \<Rightarrow> Inr (BasicLayer subs stride' filters' k'))"

definition WideResidualNetwork_init ::
  "int \<times> int \<times> int \<Rightarrow> int \<Rightarrow> int \<Rightarrow> activation \<Rightarrow> int \<Rightarrow> error + wide_residual_network" where
  "WideResidualNetwork_init input_shape group_size pool_size' activation' k' =
     (case Conv2D_init (Some input_shape) (FILTER_SIZES ! 0) (3, 3) (STRIDES ! 0) Same of
        Inl e \<Rightarrow> Inl e
      | Inr stem \<Rightarrow>
          (case collect
                  (map (\<lambda>i. Group_init group_size (FILTER_SIZES ! i) (STRIDES ! i) activation' k')
                     [1 ..< length FILTER_SIZES]) of
             Inl e \<Rightarrow> Inl e
           | Inr gs \<Rightarrow>
               (case AvgPool2D_init pool_size' of
                  Inl e \<Rightarrow> Inl e
                | Inr pool \<Rightarrow>
                    Inr \<lparr>groups = [Keras stem] @ gs @ [Keras pool], pool_size = pool_size'\<rparr>)))"

subsection \<open>Shape rules\<close>

text \<open>
  \<^verbatim>\<open>BasicLayer.compute_output_shape\<close> reads the block's own stride, filter count and
  multiplier; it does not look at the sub-layers. The tuple is built first, left to right,
  so a zero stride raises at the height; the tuple is then handed to the shape constructor.
\<close>

fun BasicLayer_compute_output_shape :: "int \<Rightarrow> int \<Rightarrow> int \<Rightarrow> shape \<Rightarrow> error + shape" where
  "BasicLayer_compute_output_shape stride' filters' k' (b, h, w, c) =
     (if stride' = 0 then Inl ZeroDivisionError
      else TensorShape (b, h div stride', w div stride', filters' * k'))"

text \<open>
  Modelled from the spec: the layers of the tensor framework (\<^verbatim>\<open>Conv2D\<close>,
  \<^verbatim>\<open>BatchNormalization\<close>, the activation, \<^verbatim>\<open>AvgPool2D\<close>) are library code that is not under
  \<^verbatim>\<open>src/\<close>. Their effect on the shape of a tensor is what the specification records: same
  padding gives an output size of the input size divided by the stride, rounded up, and as
  many channels as the convolution has filters; normalisation and activation keep the
  shape; the pooling layer, whose window is also its step, divides the spatial sizes by the
  pool size, rounding down, and keeps the channels. A step or window that is not positive
  is rejected.
\<close>

definition conv_output_length :: "int \<Rightarrow> int \<Rightarrow> padding \<Rightarrow> int \<Rightarrow> int" where
  "conv_output_length input_length filter_size padding' stride' =
     (case padding' of
        Same \<Rightarrow> (input_length + stride' - 1) div stride'
      | Valid \<Rightarrow> (input_length - filter_size + 1 + stride' - 1) div stride')"

fun keras_output_shape :: "keras_layer \<Rightarrow> shape \<Rightarrow> error + shape" where
  "keras_output_shape BatchNormalization s = Inr s"
| "keras_output_shape (Activation a) s = Inr s"
| "keras_output_shape (Conv2D i f ks st p) (b, h, w, c) =
     (if st \<le> 0 then Inl ValueError
      else Inr (b, conv_output_length h (fst ks) p st, conv_output_length w (snd ks) p st, f))"
| "keras_output_shape (AvgPool2D ps) (b, h, w, c) =
     (if ps \<le> 0 then Inl ValueError
      else Inr (b, conv_output_length h ps Valid ps, conv_output_length w ps Valid ps, c))"

text \<open>The shape rule of any layer of the tree: a block answers with its own rule.\<close>

fun compute_output_shape :: "layer \<Rightarrow> shape \<Rightarrow> error + shape" where
  "compute_output_shape (Keras l) s = keras_output_shape l s"
| "compute_output_shape (BasicLayer subs stride' filters' k') s =
     BasicLayer_compute_output_shape stride' filters' k' s"


text \<open>
  \<^verbatim>\<open>WideResidualNetwork.compute_output_shape\<close>. The divisor is the product of the stride
  table, computed by the array library, times the pool size; a quotient by an array-library
  integer that is zero is 0 with a warning and not an exception. The channel entry is the
  last element of the filter table. The array library computes with signed 64-bit
  integers; the definition is the code's arithmetic for sizes and pool sizes within that
  range, which is where it is used below.
\<close>

definition np_floor_divide :: "int \<Rightarrow> int \<Rightarrow> int" where
  "np_floor_divide a d = (if d = 0 then 0 else a div d)"

fun WideResidualNetwork_compute_output_shape ::
  "wide_residual_network \<Rightarrow> shape \<Rightarrow> error + shape" where
  "WideResidualNetwork_compute_output_shape self (b, h, w, c) =
     (let stride_product = prod_list STRIDES
      in TensorShape (b,
              np_floor_divide h (stride_product * pool_size self),
              np_floor_divide w (stride_product * pool_size self),
              last FILTER_SIZES))"

subsection \<open>Forward pass\<close>

text \<open>
  \<^verbatim>\<open>BasicLayer.call\<close> applies the first sub-layer to the input and every further sub-layer
  to the result of the one before. The tensors and the leaf computations belong to the
  framework, so the forward pass is parametrised by what a leaf does to a value of any type
  \<open>'a\<close>; a leaf may fail, and a failure ends the pass. Indexing an empty list of sub-layers
  raises.
\<close>

fun call :: "(keras_layer \<Rightarrow> 'a \<Rightarrow> error + 'a) \<Rightarrow> layer \<Rightarrow> 'a \<Rightarrow> error + 'a"
  and call_rest :: "(keras_layer \<Rightarrow> 'a \<Rightarrow> error + 'a) \<Rightarrow> layer list \<Rightarrow> 'a \<Rightarrow> error + 'a" where
  "call run (Keras l) x = run l x"
| "call run (BasicLayer [] stride' filters' k') x = Inl IndexError"
| "call run (BasicLayer (l # ls) stride' filters' k') x =
     (case call run l x of Inl e \<Rightarrow> Inl e | Inr y \<Rightarrow> call_rest run ls y)"
| "call_rest run [] x = Inr x"
| "call_rest run (l # ls) x =
     (case call run l x of Inl e \<Rightarrow> Inl e | Inr y \<Rightarrow> call_rest run ls y)"

text \<open>\<^verbatim>\<open>WideResidualNetwork.call\<close>: the same loop over \<^verbatim>\<open>self.groups\<close>.\<close>

definition WideResidualNetwork_call ::
  "(keras_layer \<Rightarrow> 'a \<Rightarrow> error + 'a) \<Rightarrow> wide_residual_network \<Rightarrow> 'a \<Rightarrow> error + 'a" where
  "WideResidualNetwork_call run self x =
     (case groups self of
        [] \<Rightarrow> Inl IndexError
      | g # gs \<Rightarrow> (case call run g x of Inl e \<Rightarrow> Inl e | Inr y \<Rightarrow> call_rest run gs y))"

subsection \<open>Reference compositions\<close>

text \<open>
  Sequential composition of fallible transforms, as the specification words it: each
  transform receives the result of the one before, and nothing else.
\<close>

fun sequential :: "('a \<Rightarrow> error + 'a) list \<Rightarrow> 'a \<Rightarrow> error + 'a" where
  "sequential [] x = Inr x"
| "sequential (f # fs) x = (case f x of Inl e \<Rightarrow> Inl e | Inr y \<Rightarrow> sequential fs y)"

text \<open>
  Threading a shape through the shape rules of a list of sub-layers, in order: the
  composition of the children's rules that a block's own rule is compared with.
\<close>

fun children_output_shape :: "layer list \<Rightarrow> shape \<Rightarrow> error + shape" where
  "children_output_shape [] s = Inr s"
| "children_output_shape (l # ls) s =
     (case compute_output_shape l s of Inl e \<Rightarrow> Inl e | Inr t \<Rightarrow> children_output_shape ls t)"

section \<open>Properties\<close>

subsection \<open>Structure of the constructed blocks\<close>

lemma sub_layers_BottleneckBlock:
  "sub_layers (BottleneckBlock f s a m) =
     [ConvolutionBlock (f * m) (1, 1) s a 1,
      ConvolutionBlock (f * m) (3, 3) 1 a 1,
      ConvolutionBlock (f * m) (1, 1) 1 a 1]"
  by (simp add: BottleneckBlock_def)

lemma sub_layers_Group:
  "sub_layers (Group n f s a m) =
     BottleneckBlock f s a m # replicate (nat (n - 1)) (BottleneckBlock f 1 a m)"
  by (simp add: Group_def)

lemma Group_depth_le_1:
  "n \<le> 1 \<Longrightarrow> Group n f s a m = BasicLayer [BottleneckBlock f s a m] s f m"
  by (simp add: Group_def)

lemma groups_WideResidualNetwork:
  "groups (WideResidualNetwork i n p a m) =
     [Keras (Conv2D (Some i) 16 (3, 3) 4 Same),
      Group n 16 1 a m, Group n 32 2 a m, Group n 64 2 a m,
      Keras (AvgPool2D p)]"
  by (simp add: WideResidualNetwork_def FILTER_SIZES_def STRIDES_def upt_rec)

subsection \<open>Shape rules of the constructed blocks\<close>

lemma compute_output_shape_BottleneckBlock:
  "compute_output_shape (BottleneckBlock f s a m) shp = BasicLayer_compute_output_shape s f m shp"
  by (simp add: BottleneckBlock_def)

lemma compute_output_shape_Group:
  "compute_output_shape (Group n f s a m) shp = BasicLayer_compute_output_shape s f m shp"
  by (simp add: Group_def)


lemma TensorShape_cases:
  "TensorShape t = Inl ValueError \<or> TensorShape t = Inr t"
  by (cases t) (simp add: TensorShape_def)

lemma children_output_shape_replicate:
  "TensorShape (b, h, w, f * m) = Inr (b, h, w, f * m) \<Longrightarrow>
   children_output_shape (replicate j (BottleneckBlock f 1 a m)) (b, h, w, f * m) =
     Inr (b, h, w, f * m)"
  by (induction j) (simp_all add: BottleneckBlock_def)

lemma WideResidualNetwork_compute_output_shape_eq:
  "WideResidualNetwork_compute_output_shape (WideResidualNetwork i n p a m) (b, h, w, c) =
     TensorShape (b, np_floor_divide h (16 * p), np_floor_divide w (16 * p), 64)"
  by (simp add: WideResidualNetwork_def FILTER_SIZES_def STRIDES_def)

subsection \<open>When a construction fails\<close>

lemma collect_replicate_Inr: "collect (replicate j (Inr x)) = Inr (replicate j x)"
  by (induction j) simp_all

lemma ConvolutionBlock_init_eq:
  "ConvolutionBlock_init f ks s a m =
     (if f * m \<le> 0 \<or> s \<le> 0 then Inl ValueError else Inr (ConvolutionBlock f ks s a m))"
  by (simp add: ConvolutionBlock_init_def Conv2D_init_def ConvolutionBlock_def)

lemma BottleneckBlock_init_eq:
  "BottleneckBlock_init f s a m =
     (if f * m \<le> 0 \<or> s \<le> 0 then Inl ValueError else Inr (BottleneckBlock f s a m))"
  by (simp add: BottleneckBlock_init_def ConvolutionBlock_init_eq BottleneckBlock_def)

lemma Group_init_eq:
  "Group_init n f s a m =
     (if f * m \<le> 0 \<or> s \<le> 0 then Inl ValueError else Inr (Group n f s a m))"
  by (simp add: Group_init_def BottleneckBlock_init_eq Group_def collect_replicate_Inr)

lemma WideResidualNetwork_init_eq:
  "WideResidualNetwork_init i n p a m =
     (if m \<le> 0 \<or> p \<le> 0 then Inl ValueError else Inr (WideResidualNetwork i n p a m))"
  by (simp add: WideResidualNetwork_init_def Conv2D_init_def AvgPool2D_init_def Group_init_eq
      WideResidualNetwork_def FILTER_SIZES_def STRIDES_def upt_rec
      zero_less_mult_iff mult_le_0_iff)

subsection \<open>Shapes produced by the forward pass\<close>

lemma call_rest_sequential: "call_rest run ls x = sequential (map (call run) ls) x"
  by (induction ls arbitrary: x) (auto split: sum.splits)

lemma conv_output_length_Same_1 [simp]: "conv_output_length h fs Same 1 = h"
  by (simp add: conv_output_length_def)

lemma conv_output_length_Valid_pool [simp]:
  "p \<noteq> 0 \<Longrightarrow> conv_output_length h p Valid p = h div p"
  by (simp add: conv_output_length_def)

lemma call_ConvolutionBlock_shape:
  "0 < s \<Longrightarrow>
   call keras_output_shape (ConvolutionBlock f ks s a m) (b, h, w, c) =
     Inr (b, conv_output_length h (fst ks) Same s, conv_output_length w (snd ks) Same s, f * m)"
  by (simp add: ConvolutionBlock_def)

lemma call_BottleneckBlock_shape:
  "0 < s \<Longrightarrow>
   call keras_output_shape (BottleneckBlock f s a m) (b, h, w, c) =
     Inr (b, conv_output_length h 1 Same s, conv_output_length w 1 Same s, f * m)"
  by (simp add: BottleneckBlock_def call_ConvolutionBlock_shape)

lemma call_rest_replicate_BottleneckBlock_shape:
  "call_rest keras_output_shape (replicate j (BottleneckBlock f 1 a m)) (b, h, w, f * m) =
     Inr (b, h, w, f * m)"
  by (induction j) (simp_all add: call_BottleneckBlock_shape)

lemma call_Group_shape:
  "0 < s \<Longrightarrow>
   call keras_output_shape (Group n f s a m) (b, h, w, c) =
     Inr (b, conv_output_length h 1 Same s, conv_output_length w 1 Same s, f * m)"
  by (simp add: Group_def call_BottleneckBlock_shape call_rest_replicate_BottleneckBlock_shape)

lemma WideResidualNetwork_call_shape:
  "0 < p \<Longrightarrow>
   WideResidualNetwork_call keras_output_shape (WideResidualNetwork i n p a m) (b, h, w, c) =
     Inr (b,
          conv_output_length (conv_output_length (conv_output_length h 3 Same 4) 1 Same 2)
            1 Same 2 div p,
          conv_output_length (conv_output_length (conv_output_length w 3 Same 4) 1 Same 2)
            1 Same 2 div p,
          64 * m)"
  by (simp add: WideResidualNetwork_call_def groups_WideResidualNetwork call_Group_shape)

section \<open>The claims\<close>

text \<open>
  C1. For every width multiplier, the network's shape rule should report the last stage's
  filter count times the multiplier, and that should be the channel count the network
  produces; with multiplier 2 the count should be 128. The network's rule reads the last
  entry of the filter table and never the multiplier, which the object does not even
  store: for the network built with multiplier 2 on a \<open>227 \<times> 227\<close> input the rule reports
  64 channels, while the forward pass of that same network yields 128.
\<close>

theorem WideResidualNetwork_shape_rule_ignores_k:
  "WideResidualNetwork_compute_output_shape (WideResidualNetwork (227, 227, 3) 13 8 ReLU 2)
       (1, 227, 227, 3) = Inr (1, 1, 1, 64)
   \<and> WideResidualNetwork_call keras_output_shape (WideResidualNetwork (227, 227, 3) 13 8 ReLU 2)
       (1, 227, 227, 3) = Inr (1, 1, 1, 128)"
  by (simp add: WideResidualNetwork_compute_output_shape_eq WideResidualNetwork_call_shape
      np_floor_divide_def conv_output_length_def TensorShape_def
      del: WideResidualNetwork_compute_output_shape.simps)

text \<open>
  C2. The shape rule of a convolution unit should round the spatial sizes up. The rule
  divides with \<^verbatim>\<open>//\<close> and so rounds down: the first convolution unit of the second group
  of the default network receives height and width 57 with stride 2, its rule answers 28,
  and its own forward pass, a same-padding convolution, yields 29.
\<close>

theorem ConvolutionBlock_shape_rule_rounds_down:
  "compute_output_shape (ConvolutionBlock 32 (1, 1) 2 ReLU 1) (1, 57, 57, 16)
     = Inr (1, 28, 28, 32)
   \<and> call keras_output_shape (ConvolutionBlock 32 (1, 1) 2 ReLU 1) (1, 57, 57, 16)
     = Inr (1, 29, 29, 32)"
  by (simp add: ConvolutionBlock_def conv_output_length_def TensorShape_def)

text \<open>
  C3. With the default tables (filters 16, 16, 32, 64 and strides 4, 1, 2, 2), pool size 8
  and width multiplier 1, the forward pass on an input of shape \<open>(1, 227, 227, 3)\<close> yields
  the shape \<open>(1, 1, 1, 64)\<close>, and the network's shape rule computes the same shape. This
  holds for every group depth and every activation.
\<close>

theorem WideResidualNetwork_default_output_shape:
  "FILTER_SIZES = [16, 16, 32, 64] \<and> STRIDES = [4, 1, 2, 2]
   \<and> WideResidualNetwork_call keras_output_shape (WideResidualNetwork (227, 227, 3) n 8 a 1)
       (1, 227, 227, 3) = Inr (1, 1, 1, 64)
   \<and> WideResidualNetwork_compute_output_shape (WideResidualNetwork (227, 227, 3) n 8 a 1)
       (1, 227, 227, 3) = Inr (1, 1, 1, 64)"
  by (simp add: WideResidualNetwork_compute_output_shape_eq WideResidualNetwork_call_shape
      np_floor_divide_def conv_output_length_def FILTER_SIZES_def STRIDES_def TensorShape_def
      del: WideResidualNetwork_compute_output_shape.simps)

theorem WideResidualNetwork_default_output_shape_witness:
  "WideResidualNetwork_call keras_output_shape (WideResidualNetwork (227, 227, 3) 13 8 ReLU 1)
       (1, 227, 227, 3) = Inr (1, 1, 1, 64)
   \<and> WideResidualNetwork_compute_output_shape (WideResidualNetwork (227, 227, 3) 13 8 ReLU 1)
       (1, 227, 227, 3) = Inr (1, 1, 1, 64)"
  using WideResidualNetwork_default_output_shape [of 13 ReLU] by blast

text \<open>
  C4. A group built with unit count \<open>n \<ge> 1\<close> and stride \<open>s\<close> holds \<open>n\<close> bottleneck units;
  the first carries the stride \<open>s\<close>, each of the other \<open>n - 1\<close> has stride 1 and the group's
  filter count and multiplier. The strides of the units therefore multiply to \<open>s\<close>, and
  for a positive stride the forward pass of the group reduces height and width once by
  \<open>s\<close> (rounding up), whatever \<open>n\<close> is.
\<close>

theorem Group_stride_applied_once:
  assumes "1 \<le> n"
  shows "length (sub_layers (Group n f s a m)) = nat n
    \<and> hd (sub_layers (Group n f s a m)) = BottleneckBlock f s a m
    \<and> stride (hd (sub_layers (Group n f s a m))) = s
    \<and> length (tl (sub_layers (Group n f s a m))) = nat (n - 1)
    \<and> (\<forall>u \<in> set (tl (sub_layers (Group n f s a m))).
          u = BottleneckBlock f 1 a m \<and> stride u = 1 \<and> filters u = f \<and> k u = m)
    \<and> prod_list (map stride (sub_layers (Group n f s a m))) = s
    \<and> (0 < s \<longrightarrow>
         call keras_output_shape (Group n f s a m) (b, h, w, c) =
           Inr (b, (h + s - 1) div s, (w + s - 1) div s, f * m))"
proof -
  have fields: "stride (BottleneckBlock f 1 a m) = 1" "filters (BottleneckBlock f 1 a m) = f"
    "k (BottleneckBlock f 1 a m) = m" "stride (BottleneckBlock f s a m) = s"
    by (simp_all add: BottleneckBlock_def)
  have len: "length (sub_layers (Group n f s a m)) = nat n"
    using assms by (simp add: sub_layers_Group)
  have prod: "prod_list (map stride (sub_layers (Group n f s a m))) = s"
    by (simp add: sub_layers_Group fields)
  have run: "0 < s \<longrightarrow>
         call keras_output_shape (Group n f s a m) (b, h, w, c) =
           Inr (b, (h + s - 1) div s, (w + s - 1) div s, f * m)"
    by (simp add: call_Group_shape conv_output_length_def)
  have units: "hd (sub_layers (Group n f s a m)) = BottleneckBlock f s a m
    \<and> stride (hd (sub_layers (Group n f s a m))) = s
    \<and> length (tl (sub_layers (Group n f s a m))) = nat (n - 1)
    \<and> (\<forall>u \<in> set (tl (sub_layers (Group n f s a m))).
          u = BottleneckBlock f 1 a m \<and> stride u = 1 \<and> filters u = f \<and> k u = m)"
    by (simp add: sub_layers_Group fields)
  show ?thesis
    using len prod run units by blast
qed

theorem Group_stride_applied_once_witness:
  "(1::int) \<le> 3
   \<and> length (sub_layers (Group 3 32 2 ReLU 1)) = 3
   \<and> prod_list (map stride (sub_layers (Group 3 32 2 ReLU 1))) = 2
   \<and> call keras_output_shape (Group 3 32 2 ReLU 1) (1, 57, 57, 16) = Inr (1, 29, 29, 32)"
proof -
  have n: "(1::int) \<le> 3" by simp
  show ?thesis
    using Group_stride_applied_once [OF n, of 32 2 ReLU 1 1 57 57 16] by simp
qed

text \<open>
  C5. A malformed configuration should be rejected when the network is constructed. For a
  group depth this is not so. The constructors of the module contain no check of their
  own, and a group depth of 0 reaches no framework constructor with a bad argument:
  \<^verbatim>\<open>range(n - 1)\<close> is empty, every group receives exactly one bottleneck unit, the
  construction returns the complete five-element hierarchy, and the forward pass runs on
  it.
\<close>

theorem WideResidualNetwork_depth_zero_is_built:
  "WideResidualNetwork_init (227, 227, 3) 0 8 ReLU 1 =
     Inr (WideResidualNetwork (227, 227, 3) 0 8 ReLU 1)
   \<and> WideResidualNetwork (227, 227, 3) 0 8 ReLU 1 =
     \<lparr>groups =
        [Keras (Conv2D (Some (227, 227, 3)) 16 (3, 3) 4 Same),
         BasicLayer [BottleneckBlock 16 1 ReLU 1] 1 16 1,
         BasicLayer [BottleneckBlock 32 2 ReLU 1] 2 32 1,
         BasicLayer [BottleneckBlock 64 2 ReLU 1] 2 64 1,
         Keras (AvgPool2D 8)],
      pool_size = 8\<rparr>
   \<and> WideResidualNetwork_call keras_output_shape (WideResidualNetwork (227, 227, 3) 0 8 ReLU 1)
       (1, 227, 227, 3) = Inr (1, 1, 1, 64)"
proof -
  have returned: "WideResidualNetwork_init (227, 227, 3) 0 8 ReLU 1 =
     Inr (WideResidualNetwork (227, 227, 3) 0 8 ReLU 1)"
    by (simp add: WideResidualNetwork_init_eq)
  have built: "WideResidualNetwork (227, 227, 3) 0 8 ReLU 1 =
     \<lparr>groups =
        [Keras (Conv2D (Some (227, 227, 3)) 16 (3, 3) 4 Same),
         BasicLayer [BottleneckBlock 16 1 ReLU 1] 1 16 1,
         BasicLayer [BottleneckBlock 32 2 ReLU 1] 2 32 1,
         BasicLayer [BottleneckBlock 64 2 ReLU 1] 2 64 1,
         Keras (AvgPool2D 8)],
      pool_size = 8\<rparr>"
    by (simp add: WideResidualNetwork_def FILTER_SIZES_def STRIDES_def upt_rec Group_def)
  have runs: "WideResidualNetwork_call keras_output_shape
       (WideResidualNetwork (227, 227, 3) 0 8 ReLU 1) (1, 227, 227, 3) = Inr (1, 1, 1, 64)"
    by (simp add: WideResidualNetwork_call_shape conv_output_length_def)
  show ?thesis using returned built runs by blast
qed

text \<open>
  C5, as the code has it. Constructing the network with a width multiplier or a pool size
  that is not positive fails at construction time with the value error of a framework
  layer constructor, and so does constructing a group whose product of filter count and
  width multiplier, or whose stride, is not positive; a failed construction returns no
  hierarchy, partial or whole. The group depth is not validated: with a positive width
  multiplier and pool size the construction succeeds for every group depth, and for every
  depth \<open>n \<le> 1\<close> it returns the hierarchy of depth 1, the stem, three groups of exactly one
  bottleneck unit each, and the pooling layer.
\<close>

theorem construction_rejects_all_but_depth:
  "(m \<le> 0 \<or> p \<le> 0 \<longrightarrow> WideResidualNetwork_init i n p a m = Inl ValueError)
   \<and> (f * m \<le> 0 \<or> s \<le> 0 \<longrightarrow> Group_init n f s a m = Inl ValueError)
   \<and> (0 < m \<and> 0 < p \<longrightarrow>
        WideResidualNetwork_init i n p a m = Inr (WideResidualNetwork i n p a m))
   \<and> (0 < m \<and> 0 < p \<and> n \<le> 1 \<longrightarrow>
        WideResidualNetwork_init i n p a m = WideResidualNetwork_init i 1 p a m
        \<and> WideResidualNetwork_init i n p a m =
            Inr \<lparr>groups =
                  [Keras (Conv2D (Some i) 16 (3, 3) 4 Same),
                   BasicLayer [BottleneckBlock 16 1 a m] 1 16 m,
                   BasicLayer [BottleneckBlock 32 2 a m] 2 32 m,
                   BasicLayer [BottleneckBlock 64 2 a m] 2 64 m,
                   Keras (AvgPool2D p)],
                 pool_size = p\<rparr>)"
proof -
  have network_fails:
    "m \<le> 0 \<or> p \<le> 0 \<longrightarrow> WideResidualNetwork_init i n p a m = Inl ValueError"
    by (simp add: WideResidualNetwork_init_eq)
  have group_fails: "f * m \<le> 0 \<or> s \<le> 0 \<longrightarrow> Group_init n f s a m = Inl ValueError"
    by (simp add: Group_init_eq)
  have succeeds: "0 < m \<and> 0 < p \<longrightarrow>
        WideResidualNetwork_init i n p a m = Inr (WideResidualNetwork i n p a m)"
    by (simp add: WideResidualNetwork_init_eq)
  have shallow: "n \<le> 1 \<longrightarrow> WideResidualNetwork i n p a m =
       \<lparr>groups =
          [Keras (Conv2D (Some i) 16 (3, 3) 4 Same),
           BasicLayer [BottleneckBlock 16 1 a m] 1 16 m,
           BasicLayer [BottleneckBlock 32 2 a m] 2 32 m,
           BasicLayer [BottleneckBlock 64 2 a m] 2 64 m,
           Keras (AvgPool2D p)],
        pool_size = p\<rparr>"
    by (simp add: WideResidualNetwork_def FILTER_SIZES_def STRIDES_def upt_rec Group_depth_le_1)
  have one: "WideResidualNetwork i 1 p a m =
       \<lparr>groups =
          [Keras (Conv2D (Some i) 16 (3, 3) 4 Same),
           BasicLayer [BottleneckBlock 16 1 a m] 1 16 m,
           BasicLayer [BottleneckBlock 32 2 a m] 2 32 m,
           BasicLayer [BottleneckBlock 64 2 a m] 2 64 m,
           Keras (AvgPool2D p)],
        pool_size = p\<rparr>"
    by (simp add: WideResidualNetwork_def FILTER_SIZES_def STRIDES_def upt_rec Group_depth_le_1)
  have depth: "0 < m \<and> 0 < p \<and> n \<le> 1 \<longrightarrow>
        WideResidualNetwork_init i n p a m = WideResidualNetwork_init i 1 p a m
        \<and> WideResidualNetwork_init i n p a m =
            Inr \<lparr>groups =
                  [Keras (Conv2D (Some i) 16 (3, 3) 4 Same),
                   BasicLayer [BottleneckBlock 16 1 a m] 1 16 m,
                   BasicLayer [BottleneckBlock 32 2 a m] 2 32 m,
                   BasicLayer [BottleneckBlock 64 2 a m] 2 64 m,
                   Keras (AvgPool2D p)],
                 pool_size = p\<rparr>"
    using shallow one by (simp add: WideResidualNetwork_init_eq)
  show ?thesis
    using network_fails group_fails succeeds depth by blast
qed

theorem construction_rejects_all_but_depth_witness:
  "WideResidualNetwork_init (227, 227, 3) 13 8 ReLU 0 = Inl ValueError
   \<and> WideResidualNetwork_init (227, 227, 3) 13 0 ReLU 1 = Inl ValueError
   \<and> Group_init 13 0 2 ReLU 1 = Inl ValueError
   \<and> Group_init 13 32 0 ReLU 1 = Inl ValueError
   \<and> WideResidualNetwork_init (227, 227, 3) 13 8 ReLU 2 =
       Inr (WideResidualNetwork (227, 227, 3) 13 8 ReLU 2)
   \<and> WideResidualNetwork_init (227, 227, 3) (-2) 8 ReLU 2 =
       WideResidualNetwork_init (227, 227, 3) 1 8 ReLU 2"
proof -
  have multiplier: "WideResidualNetwork_init (227, 227, 3) 13 8 ReLU 0 = Inl ValueError"
    using construction_rejects_all_but_depth
      [where m = 0 and p = 8 and i = "(227, 227, 3)" and n = 13 and a = ReLU and f = 32 and s = 2]
    by simp
  have pool: "WideResidualNetwork_init (227, 227, 3) 13 0 ReLU 1 = Inl ValueError"
    and stride_zero: "Group_init 13 32 0 ReLU 1 = Inl ValueError"
    using construction_rejects_all_but_depth
      [where m = 1 and p = 0 and i = "(227, 227, 3)" and n = 13 and a = ReLU and f = 32 and s = 0]
    by simp_all
  have filters_zero: "Group_init 13 0 2 ReLU 1 = Inl ValueError"
    using construction_rejects_all_but_depth
      [where m = 1 and p = 8 and i = "(227, 227, 3)" and n = 13 and a = ReLU and f = 0 and s = 2]
    by simp
  have deep: "WideResidualNetwork_init (227, 227, 3) 13 8 ReLU 2 =
       Inr (WideResidualNetwork (227, 227, 3) 13 8 ReLU 2)"
    using construction_rejects_all_but_depth
      [where m = 2 and p = 8 and i = "(227, 227, 3)" and n = 13 and a = ReLU and f = 32 and s = 2]
    by simp
  have "(0::int) < 2 \<and> (0::int) < 8 \<and> (-2::int) \<le> 1"
    by simp
  then have shallow: "WideResidualNetwork_init (227, 227, 3) (-2) 8 ReLU 2 =
       WideResidualNetwork_init (227, 227, 3) 1 8 ReLU 2"
    using construction_rejects_all_but_depth
      [where m = 2 and p = 8 and i = "(227, 227, 3)" and n = "-2" and a = ReLU and f = 32 and s = 2]
    by blast
  show ?thesis
    using multiplier pool stride_zero filters_zero deep shallow by blast
qed

text \<open>
  C6. No block adds its input to its output. For every interpretation \<open>run\<close> of the leaf
  layers, the forward pass of a bottleneck unit is the sequential composition of the
  forward passes of its three children, that is, of nine leaf transforms in a row, each
  fed only the result of the one before; and a group of depth 1 computes exactly what its
  single bottleneck unit computes.
\<close>

theorem BottleneckBlock_call_is_sequential:
  "call run (BottleneckBlock f s a m) x =
     sequential (map (call run) (sub_layers (BottleneckBlock f s a m))) x
   \<and> call run (BottleneckBlock f s a m) x =
     sequential (map run
       [BatchNormalization, Activation a, Conv2D None (f * m) (1, 1) s Same,
        BatchNormalization, Activation a, Conv2D None (f * m) (3, 3) 1 Same,
        BatchNormalization, Activation a, Conv2D None (f * m) (1, 1) 1 Same]) x
   \<and> call run (Group 1 f s a m) x = call run (BottleneckBlock f s a m) x"
  by (simp add: BottleneckBlock_def ConvolutionBlock_def Group_def split: sum.splits)

text \<open>
  C7. A bottleneck unit with filter count \<open>f\<close>, stride \<open>s\<close> and multiplier \<open>m\<close> has exactly
  three children, in this order: a convolution unit with a \<open>1 \<times> 1\<close> kernel and stride \<open>s\<close>,
  one with a \<open>3 \<times> 3\<close> kernel and stride 1, and one with a \<open>1 \<times> 1\<close> kernel and stride 1.
  Each is built with filter count \<open>f * m\<close> and multiplier 1, so each convolves with
  \<open>f * m\<close> filters and declares \<open>f * m\<close> output channels.
\<close>

theorem BottleneckBlock_three_ConvolutionBlocks:
  "sub_layers (BottleneckBlock f s a m) =
     [ConvolutionBlock (f * m) (1, 1) s a 1,
      ConvolutionBlock (f * m) (3, 3) 1 a 1,
      ConvolutionBlock (f * m) (1, 1) 1 a 1]
   \<and> sub_layers (BottleneckBlock f s a m) =
     [BasicLayer [Keras BatchNormalization, Keras (Activation a),
                  Keras (Conv2D None (f * m) (1, 1) s Same)] s (f * m) 1,
      BasicLayer [Keras BatchNormalization, Keras (Activation a),
                  Keras (Conv2D None (f * m) (3, 3) 1 Same)] 1 (f * m) 1,
      BasicLayer [Keras BatchNormalization, Keras (Activation a),
                  Keras (Conv2D None (f * m) (1, 1) 1 Same)] 1 (f * m) 1]
   \<and> length (sub_layers (BottleneckBlock f s a m)) = 3
   \<and> map stride (sub_layers (BottleneckBlock f s a m)) = [s, 1, 1]
   \<and> map (\<lambda>u. filters u * k u) (sub_layers (BottleneckBlock f s a m)) = [f * m, f * m, f * m]"
  by (simp add: BottleneckBlock_def ConvolutionBlock_def)

text \<open>
  C8. The network's list of layers is, in order: the stem convolution with a \<open>3 \<times> 3\<close>
  kernel, the stride and the filter count of table entry 0 (4 and 16) and no multiplier;
  one group for each of the entries 1, 2 and 3, with the group depth, the multiplier and
  the entry's filter count and stride (16 and 1, 32 and 2, 64 and 2); and the average
  pooling with the configured pool size.
\<close>

theorem WideResidualNetwork_assembly:
  "groups (WideResidualNetwork i n p a m) =
     [Keras (Conv2D (Some i) 16 (3, 3) 4 Same),
      Group n 16 1 a m, Group n 32 2 a m, Group n 64 2 a m,
      Keras (AvgPool2D p)]
   \<and> groups (WideResidualNetwork i n p a m) =
     Keras (Conv2D (Some i) (FILTER_SIZES ! 0) (3, 3) (STRIDES ! 0) Same)
     # map (\<lambda>j. Group n (FILTER_SIZES ! j) (STRIDES ! j) a m) [1, 2, 3]
     @ [Keras (AvgPool2D p)]
   \<and> FILTER_SIZES = [16, 16, 32, 64] \<and> STRIDES = [4, 1, 2, 2]
   \<and> pool_size (WideResidualNetwork i n p a m) = p"
  by (simp add: groups_WideResidualNetwork)
     (simp add: WideResidualNetwork_def FILTER_SIZES_def STRIDES_def)




text \<open>
  C10. For every bottleneck unit and every group as constructed, threading an input shape
  through the shape rules of the sub-layers, in order, gives exactly what the block's own
  shape rule gives for that input shape; where the block's own rule raises, the first
  sub-layer's rule raises the same error.
\<close>

theorem block_shape_rule_is_composition_of_children:
  "children_output_shape (sub_layers (BottleneckBlock f s a m)) shp =
     compute_output_shape (BottleneckBlock f s a m) shp
   \<and> children_output_shape (sub_layers (Group n f s a m)) shp =
     compute_output_shape (Group n f s a m) shp"
proof -
  obtain b h w c where shp: "shp = (b, h, w, c)"
    by (cases shp) auto
  let ?out = "(b, h div s, w div s, f * m)"
  have bottleneck: "children_output_shape (sub_layers (BottleneckBlock f s a m)) shp =
     compute_output_shape (BottleneckBlock f s a m) shp"
  proof (cases "s = 0")
    case True
    then show ?thesis
      by (simp add: shp BottleneckBlock_def ConvolutionBlock_def)
  next
    case False
    from TensorShape_cases [of ?out] show ?thesis
    proof
      assume "TensorShape ?out = Inl ValueError"
      then show ?thesis
        using False by (simp add: shp BottleneckBlock_def ConvolutionBlock_def)
    next
      assume "TensorShape ?out = Inr ?out"
      then show ?thesis
        using False by (simp add: shp BottleneckBlock_def ConvolutionBlock_def)
    qed
  qed
  have grp: "children_output_shape (sub_layers (Group n f s a m)) shp =
     compute_output_shape (Group n f s a m) shp"
  proof (cases "s = 0")
    case True
    then show ?thesis
      by (simp add: shp sub_layers_Group compute_output_shape_BottleneckBlock
          compute_output_shape_Group)
  next
    case False
    from TensorShape_cases [of ?out] show ?thesis
    proof
      assume "TensorShape ?out = Inl ValueError"
      then show ?thesis
        using False
        by (simp add: shp sub_layers_Group compute_output_shape_BottleneckBlock
            compute_output_shape_Group)
    next
      assume "TensorShape ?out = Inr ?out"
      then show ?thesis
        using False
        by (simp add: shp sub_layers_Group compute_output_shape_BottleneckBlock
            compute_output_shape_Group children_output_shape_replicate)
    qed
  qed
  show ?thesis using bottleneck grp by simp
qed

end
